theory Spec2Isabelle
  imports Complex_Main "HOL-Library.List_Lexorder" "HOL-Library.Product_Lexorder"
begin

section \<open>Python strings\<close>

text \<open>
  A Python \<open>str\<close> is a sequence of Unicode code points, so it is modelled as a list of
  natural numbers; \<open>py\<close> embeds an ASCII literal. The byte-order mark is the single
  code point U+FEFF.
\<close>

type_synonym pystr = "nat list"

definition py :: "string \<Rightarrow> pystr" where
  "py s = map of_char s"

definition comma :: nat where
  "comma = 44"

definition BOM :: nat where
  "BOM = 65279"

text \<open>
  The code points for which \<open>str.isspace\<close> holds; \<open>str.strip()\<close> and the regular
  expression class \<open>\s\<close> on \<open>str\<close> patterns both use this set.
\<close>

definition is_space :: "nat \<Rightarrow> bool" where
  "is_space c \<longleftrightarrow>
     (9 \<le> c \<and> c \<le> 13) \<or> (28 \<le> c \<and> c \<le> 32) \<or> c = 133 \<or> c = 160 \<or> c = 5760 \<or>
     (8192 \<le> c \<and> c \<le> 8202) \<or> c = 8232 \<or> c = 8233 \<or> c = 8239 \<or> c = 8287 \<or> c = 12288"

text \<open>\<open>s.strip()\<close>: leading and trailing whitespace removed.\<close>

definition strip :: "pystr \<Rightarrow> pystr" where
  "strip s = rev (dropWhile is_space (rev (dropWhile is_space s)))"

text \<open>\<open>s.replace(BOM, "")\<close>: every occurrence of the mark removed.\<close>

definition remove_bom :: "pystr \<Rightarrow> pystr" where
  "remove_bom s = filter (\<lambda>c. c \<noteq> BOM) s"

text \<open>\<open>s.split(d)\<close> for a one-character separator: always at least one piece.\<close>

fun split_on :: "nat \<Rightarrow> pystr \<Rightarrow> pystr list" where
  "split_on d [] = [[]]"
| "split_on d (c # cs) =
     (if c = d then [] # split_on d cs
      else (case split_on d cs of
              [] \<Rightarrow> [[c]]
            | p # ps \<Rightarrow> (c # p) # ps))"

text \<open>The regular expression \<open>^\s*$\<close> under \<open>search\<close>: the string is blank.\<close>

definition blank :: "pystr \<Rightarrow> bool" where
  "blank s \<longleftrightarrow> list_all is_space s"

section \<open>Data frames\<close>

text \<open>
  A cell is missing (\<open>NaN\<close>; Python's \<open>None\<close> used as padding is treated by every
  operation of the script exactly like \<open>NaN\<close> and is not distinguished), a string, a
  float or an integer. Floats are modelled as exact rationals: rounding of float64
  arithmetic and the infinities are outside the model.

  A frame is its list of column labels and its rows. Selection of a single column by
  label is modelled for frames whose labels are unique (\<open>well_formed\<close>); with a
  repeated label pandas returns a frame instead of a series.
\<close>

datatype cell = NaN | Str pystr | Num rat | IntV int

record dataframe =
  columns :: "pystr list"
  rows :: "cell list list"

definition well_formed :: "dataframe \<Rightarrow> bool" where
  "well_formed df \<longleftrightarrow>
     distinct (columns df) \<and> list_all (\<lambda>r. length r = length (columns df)) (rows df)"

text \<open>\<open>pd.DataFrame()\<close>\<close>

definition empty_frame :: dataframe where
  "empty_frame = \<lparr>columns = [], rows = []\<rparr>"

text \<open>\<open>df.empty\<close>: some axis has length 0.\<close>

definition df_empty :: "dataframe \<Rightarrow> bool" where
  "df_empty df \<longleftrightarrow> rows df = [] \<or> columns df = []"

fun index_of :: "'a \<Rightarrow> 'a list \<Rightarrow> nat" where
  "index_of x [] = 0"
| "index_of x (y # ys) = (if x = y then 0 else Suc (index_of x ys))"

text \<open>The cell of row \<open>r\<close> under label \<open>c\<close>.\<close>

definition cell_of :: "dataframe \<Rightarrow> pystr \<Rightarrow> cell list \<Rightarrow> cell" where
  "cell_of df c r =
     (let i = index_of c (columns df) in if i < length r then r ! i else NaN)"

text \<open>\<open>df[c]\<close>, where the script has checked \<open>c in df.columns\<close>.\<close>

definition column :: "dataframe \<Rightarrow> pystr \<Rightarrow> cell list" where
  "column df c = map (cell_of df c) (rows df)"

text \<open>\<open>df[c] = vs\<close>: replaces the column if the label exists, appends it otherwise.\<close>

definition assign :: "dataframe \<Rightarrow> pystr \<Rightarrow> cell list \<Rightarrow> dataframe" where
  "assign df c vs =
     (if c \<in> set (columns df)
      then df\<lparr>rows := map (\<lambda>(r, v). r[index_of c (columns df) := v]) (zip (rows df) vs)\<rparr>
      else \<lparr>columns = columns df @ [c], rows = map (\<lambda>(r, v). r @ [v]) (zip (rows df) vs)\<rparr>)"

text \<open>\<open>df[mask]\<close> with a Boolean mask, one entry per row.\<close>

definition loc :: "dataframe \<Rightarrow> bool list \<Rightarrow> dataframe" where
  "loc df bs = df\<lparr>rows := map fst (filter snd (zip (rows df) bs))\<rparr>"

text \<open>\<open>series == v\<close> and \<open>series.isin(vs)\<close>, elementwise.\<close>

definition eq_mask :: "cell list \<Rightarrow> cell \<Rightarrow> bool list" where
  "eq_mask col v = map (\<lambda>c. c = v) col"

definition isin :: "cell list \<Rightarrow> cell list \<Rightarrow> bool list" where
  "isin col vs = map (\<lambda>c. c \<in> set vs) col"

definition isnull :: "cell \<Rightarrow> bool" where
  "isnull c \<longleftrightarrow> c = NaN"

definition notnull :: "cell \<Rightarrow> bool" where
  "notnull c \<longleftrightarrow> c \<noteq> NaN"

text \<open>\<open>.fillna('')\<close>\<close>

definition fillna_empty :: "dataframe \<Rightarrow> dataframe" where
  "fillna_empty df = df\<lparr>rows := map (map (\<lambda>c. if isnull c then Str [] else c)) (rows df)\<rparr>"

text \<open>\<open>.unique()\<close>: the distinct values in order of first appearance.\<close>

fun unique :: "'a list \<Rightarrow> 'a list" where
  "unique [] = []"
| "unique (x # xs) = x # filter (\<lambda>y. y \<noteq> x) (unique xs)"

section \<open>Column labels used by the script\<close>

definition Tagged :: pystr where "Tagged = py ''Tagged''"
definition MonthlyCostUSD :: pystr where "MonthlyCostUSD = py ''MonthlyCostUSD''"
definition Department :: pystr where "Department = py ''Department''"
definition Project :: pystr where "Project = py ''Project''"
definition Environment :: pystr where "Environment = py ''Environment''"
definition Owner :: pystr where "Owner = py ''Owner''"
definition CostCenter :: pystr where "CostCenter = py ''CostCenter''"
definition CreatedBy :: pystr where "CreatedBy = py ''CreatedBy''"
definition Service :: pystr where "Service = py ''Service''"
definition Region :: pystr where "Region = py ''Region''"
definition ResourceID :: pystr where "ResourceID = py ''ResourceID''"
definition CompletenessScore :: pystr where "CompletenessScore = py ''CompletenessScore''"

section \<open>Loading and repairing the file (lines 18--42)\<close>

datatype error = ReadError | AttributeError | ValueError | KeyError | TypeError

text \<open>
  What the script uses of the result of \<open>pd.read_csv\<close>: the label of column 0 and
  column 0 itself. The column holds text (each cell a string, or missing where the line
  was one of the parser's markers of a missing value), or it was read with a numeric or
  Boolean type, on which the \<open>.str\<close> accessor raises.
\<close>

datatype column0 = Text "pystr option list" | NonText

record single_col =
  header_string :: pystr
  data :: column0

text \<open>Line 25.\<close>

definition cleaned_header_list :: "pystr \<Rightarrow> pystr list" where
  "cleaned_header_list h = map (\<lambda>col. remove_bom (strip col)) (split_on comma h)"

text \<open>
  Line 28, \<open>.str.split(',', expand=True)\<close>: the width is the largest number of pieces;
  shorter rows are padded with missing cells, and a missing line gives a row of missing
  cells. Without rows the result has no columns.
\<close>

definition pieces :: "pystr option \<Rightarrow> cell list" where
  "pieces x = (case x of None \<Rightarrow> [NaN] | Some s \<Rightarrow> map Str (split_on comma s))"

definition width :: "pystr option list \<Rightarrow> nat" where
  "width xs = fold max (map (\<lambda>x. length (pieces x)) xs) 0"

definition str_split_expand :: "pystr option list \<Rightarrow> cell list list" where
  "str_split_expand xs =
     map (\<lambda>x. case x of
            None \<Rightarrow> replicate (width xs) NaN
          | Some s \<Rightarrow> pieces x @ replicate (width xs - length (pieces x)) NaN) xs"

text \<open>Line 32, \<open>df.replace(r'^\s*$', float('nan'), regex=True)\<close>, on one cell.\<close>

definition replace_blank :: "cell \<Rightarrow> cell" where
  "replace_blank c = (case c of Str s \<Rightarrow> if blank s then NaN else Str s | _ \<Rightarrow> c)"

text \<open>
  Line 35, \<open>pd.to_numeric\<close>. Which strings pandas reads as numbers, and as which, is the
  parameter \<open>parse\<close> (\<open>None\<close>: the string is rejected with a \<open>ValueError\<close>).
\<close>

fun to_numeric :: "(pystr \<Rightarrow> cell option) \<Rightarrow> cell list \<Rightarrow> error + cell list" where
  "to_numeric parse [] = Inr []"
| "to_numeric parse (c # cs) =
     (case (case c of Str s \<Rightarrow> parse s | _ \<Rightarrow> Some c) of
        None \<Rightarrow> Inl ValueError
      | Some v \<Rightarrow> (case to_numeric parse cs of Inl e \<Rightarrow> Inl e | Inr vs \<Rightarrow> Inr (v # vs)))"

text \<open>Lines 28--32: the frame before the cost column is converted.\<close>

definition split_frame :: "pystr \<Rightarrow> pystr option list \<Rightarrow> dataframe" where
  "split_frame h xs =
     \<lparr>columns = cleaned_header_list h, rows = map (map replace_blank) (str_split_expand xs)\<rparr>"

text \<open>
  The body of the \<open>try\<close> block; every exception it can raise is an \<open>Inl\<close>: the
  failure of \<open>read_csv\<close> itself, \<open>.str\<close> on a column that is not text (a column
  of missing values only is read as float), the length mismatch when the labels are
  assigned, the missing cost column, \<open>to_numeric\<close> on the frame that a repeated cost
  label selects, and a cost that is not a number.
\<close>

definition load_csv :: "(pystr \<Rightarrow> cell option) \<Rightarrow> error + single_col \<Rightarrow> error + dataframe" where
  "load_csv parse rd =
     (case rd of
        Inl e \<Rightarrow> Inl e
      | Inr df_single_col \<Rightarrow>
          (case data df_single_col of
             NonText \<Rightarrow> Inl AttributeError
           | Text xs \<Rightarrow>
               if xs \<noteq> [] \<and> list_all (\<lambda>x. x = None) xs then Inl AttributeError
               else if length (cleaned_header_list (header_string df_single_col)) \<noteq> width xs
               then Inl ValueError
               else
                 let df = split_frame (header_string df_single_col) xs
                 in if MonthlyCostUSD \<notin> set (columns df) then Inl KeyError
                    else if 1 < count_list (columns df) MonthlyCostUSD then Inl TypeError
                    else (case to_numeric parse (column df MonthlyCostUSD) of
                            Inl e \<Rightarrow> Inl e
                          | Inr vs \<Rightarrow> Inr (assign df MonthlyCostUSD vs))))"

text \<open>
  Lines 18--42 as a whole: the table the rest of the script works on, and the message
  shown (\<open>st.success\<close> with the detected columns, or \<open>st.error\<close> with the exception).
\<close>

datatype message = Loaded "pystr list" | LoadError error

definition load :: "(pystr \<Rightarrow> cell option) \<Rightarrow> error + single_col \<Rightarrow> dataframe \<times> message" where
  "load parse rd =
     (case load_csv parse rd of
        Inl e \<Rightarrow> (empty_frame, LoadError e)
      | Inr df \<Rightarrow> (df, Loaded (columns df)))"

section \<open>Task 1: data exploration (lines 51--70)\<close>

definition No :: pystr where "No = py ''No''"

text \<open>Line 56, \<open>df.isnull().sum()\<close>.\<close>

definition missing_per_column :: "dataframe \<Rightarrow> (pystr \<times> nat) list" where
  "missing_per_column df = map (\<lambda>c. (c, length (filter isnull (column df c)))) (columns df)"

text \<open>
  Lines 68--70 under the guard of line 51. The percentage exists only where the script
  computes it: \<open>None\<close> is the path on which \<open>pct_untagged\<close> is never assigned and
  nothing is written.
\<close>

definition pct_untagged :: "dataframe \<Rightarrow> rat option" where
  "pct_untagged df =
     (if \<not> df_empty df then
        if Tagged \<in> set (columns df) \<and> Str No \<in> set (column df Tagged)
        then Some (of_nat (length (rows (loc df (eq_mask (column df Tagged) (Str No)))))
                    / of_nat (length (rows df)) * 100)
        else None
      else None)"

section \<open>Task 2: cost visibility (lines 77--99)\<close>

text \<open>
  \<open>.sum()\<close> of a numeric series: missing values are skipped. It is applied to the cost
  column, which \<open>to_numeric\<close> has made numeric.
\<close>

fun num_value :: "cell \<Rightarrow> rat" where
  "num_value (Num r) = r"
| "num_value (IntV i) = of_int i"
| "num_value _ = 0"

definition series_sum :: "cell list \<Rightarrow> rat" where
  "series_sum vs = sum_list (map num_value vs)"


text \<open>
  \<open>df.groupby(ks)[v].sum()\<close>: rows with a missing key are dropped, the groups are
  ordered by key (numbers before strings, strings by code point), and each group sums
  its non-missing values.
\<close>

fun cell_rank :: "cell \<Rightarrow> nat \<times> rat \<times> pystr" where
  "cell_rank (Num r) = (0, r, [])"
| "cell_rank (IntV i) = (0, of_int i, [])"
| "cell_rank (Str s) = (1, 0, s)"
| "cell_rank NaN = (2, 0, [])"

definition key_of :: "dataframe \<Rightarrow> pystr list \<Rightarrow> cell list \<Rightarrow> cell list" where
  "key_of df ks r = map (\<lambda>k. cell_of df k r) ks"

definition group_keys :: "dataframe \<Rightarrow> pystr list \<Rightarrow> cell list list" where
  "group_keys df ks =
     sort_key (map cell_rank) (unique (filter (list_all notnull) (map (key_of df ks) (rows df))))"

definition groupby_sum :: "dataframe \<Rightarrow> pystr list \<Rightarrow> pystr \<Rightarrow> (cell list \<times> rat) list" where
  "groupby_sum df ks v =
     map (\<lambda>k. (k, series_sum (map (cell_of df v) (filter (\<lambda>r. key_of df ks r = k) (rows df)))))
       (group_keys df ks)"

text \<open>Lines 77--86: the cost by tag status, and the untagged share of the total cost.\<close>

definition task2_1 :: "dataframe \<Rightarrow> ((cell list \<times> rat) list \<times> rat option) option" where
  "task2_1 df =
     (if \<not> df_empty df \<and> list_all (\<lambda>c. c \<in> set (columns df)) [Tagged, MonthlyCostUSD] then
        let total_cost = series_sum (column df MonthlyCostUSD);
            untagged_cost =
              series_sum (column (loc df (eq_mask (column df Tagged) (Str No))) MonthlyCostUSD)
        in Some (groupby_sum df [Tagged] MonthlyCostUSD,
                 if total_cost > 0 then Some (untagged_cost / total_cost * 100) else None)
      else None)"

text \<open>
  Lines 88--99. The order in which \<open>sort_values\<close> and \<open>head\<close> present the groups is
  display only and is not modelled.
\<close>

definition task2_3 :: "dataframe \<Rightarrow> (cell list \<times> rat) list option" where
  "task2_3 df =
     (if \<not> df_empty df \<and>
         list_all (\<lambda>c. c \<in> set (columns df)) [Department, MonthlyCostUSD, Tagged]
      then Some (groupby_sum (loc df (eq_mask (column df Tagged) (Str No)))
                   [Department] MonthlyCostUSD)
      else None)"

definition task2_4 :: "dataframe \<Rightarrow> (cell list \<times> rat) list option" where
  "task2_4 df =
     (if \<not> df_empty df \<and> list_all (\<lambda>c. c \<in> set (columns df)) [Project, MonthlyCostUSD]
      then Some (groupby_sum df [Project] MonthlyCostUSD)
      else None)"

definition task2_5 :: "dataframe \<Rightarrow> (cell list \<times> rat) list option" where
  "task2_5 df =
     (if \<not> df_empty df \<and>
         list_all (\<lambda>c. c \<in> set (columns df)) [Environment, MonthlyCostUSD, Tagged]
      then Some (groupby_sum df [Environment, Tagged] MonthlyCostUSD)
      else None)"

section \<open>Task 3: tagging compliance (lines 106--140)\<close>

definition all_tag_fields :: "pystr list" where
  "all_tag_fields = [Department, Project, Environment, Owner, CostCenter, CreatedBy]"

text \<open>Line 106.\<close>

definition tag_fields :: "dataframe \<Rightarrow> pystr list" where
  "tag_fields df = filter (\<lambda>col. col \<in> set (columns df)) all_tag_fields"

text \<open>\<open>df[labels]\<close>: a \<open>KeyError\<close> when a label is not a column.\<close>

definition select_columns :: "dataframe \<Rightarrow> pystr list \<Rightarrow> error + dataframe" where
  "select_columns df cs =
     (if list_all (\<lambda>c. c \<in> set (columns df)) cs
      then Inr \<lparr>columns = cs, rows = map (key_of df cs) (rows df)\<rparr>
      else Inl KeyError)"

text \<open>Line 110, \<open>df[tag_fields].notnull().sum(axis=1)\<close>.\<close>

definition completeness_score :: "dataframe \<Rightarrow> pystr list \<Rightarrow> error + int list" where
  "completeness_score df tf =
     (case select_columns df tf of
        Inl e \<Rightarrow> Inl e
      | Inr sub \<Rightarrow> Inr (map (\<lambda>r. int (length (filter notnull r))) (rows sub)))"

text \<open>Line 125, \<open>df[tag_fields].isnull().any(axis=1)\<close>.\<close>

definition incomplete_mask :: "dataframe \<Rightarrow> pystr list \<Rightarrow> error + bool list" where
  "incomplete_mask df tf =
     (case select_columns df tf of
        Inl e \<Rightarrow> Inl e
      | Inr sub \<Rightarrow> Inr (map (list_ex isnull) (rows sub)))"

text \<open>Lines 125--128: the rows with a missing tag field, before and after \<open>fillna('')\<close>.\<close>

definition incomplete_rows :: "dataframe \<Rightarrow> pystr list \<Rightarrow> error + dataframe" where
  "incomplete_rows df tf =
     (case incomplete_mask df tf of Inl e \<Rightarrow> Inl e | Inr bs \<Rightarrow> Inr (loc df bs))"

definition incomplete_resources :: "dataframe \<Rightarrow> pystr list \<Rightarrow> error + dataframe" where
  "incomplete_resources df tf =
     (case incomplete_rows df tf of Inl e \<Rightarrow> Inl e | Inr sel \<Rightarrow> Inr (fillna_empty sel))"

text \<open>
  The whole block: the table as the block leaves it (line 110 assigns a column of the
  table itself) and \<open>untagged_df\<close>. Line 113 selects \<open>ResourceID\<close> without a check.
\<close>

definition task3 :: "dataframe \<Rightarrow> error + dataframe \<times> dataframe" where
  "task3 df =
     (if \<not> df_empty df \<and> tag_fields df \<noteq> [] then
        (case completeness_score df (tag_fields df) of
           Inl e \<Rightarrow> Inl e
         | Inr score \<Rightarrow>
             let df' = assign df CompletenessScore (map IntV score)
             in (case select_columns df' [ResourceID, CompletenessScore] of
                   Inl e \<Rightarrow> Inl e
                 | Inr head_shown \<Rightarrow>
                     (case incomplete_resources df' (tag_fields df) of
                        Inl e \<Rightarrow> Inl e
                      | Inr incomplete_df \<Rightarrow> Inr (df', incomplete_df))))
      else Inr (df, empty_frame))"

section \<open>Task 4: filters and charts (lines 148--193)\<close>

text \<open>
  \<open>st.multiselect(label, options)\<close> is the user's choice: a parameter that gives, for a
  label and the options offered, the list of selected values.
\<close>

type_synonym multiselect = "pystr \<Rightarrow> cell list \<Rightarrow> cell list"

definition filter_label :: "pystr \<Rightarrow> pystr" where
  "filter_label c = py ''Filter by '' @ c"

text \<open>\<open>df[c].dropna().unique()\<close>\<close>

definition options :: "dataframe \<Rightarrow> pystr \<Rightarrow> cell list" where
  "options df c = unique (filter notnull (column df c))"

definition selection :: "multiselect \<Rightarrow> dataframe \<Rightarrow> pystr \<Rightarrow> cell list" where
  "selection ms df c = ms (filter_label c) (options df c)"

text \<open>One of the three blocks of lines 151--161, for the column \<open>c\<close>.\<close>

definition apply_filter :: "multiselect \<Rightarrow> dataframe \<Rightarrow> pystr \<Rightarrow> dataframe \<Rightarrow> dataframe" where
  "apply_filter ms df c filtered =
     (if c \<in> set (columns df) then
        if selection ms df c \<noteq> []
        then loc filtered (isin (column filtered c) (selection ms df c))
        else filtered
      else filtered)"

definition filtered_table :: "multiselect \<Rightarrow> dataframe \<Rightarrow> dataframe" where
  "filtered_table ms df =
     apply_filter ms df Department (apply_filter ms df Region (apply_filter ms df Service df))"

text \<open>
  Lines 163--193: the data of the three bar charts, each under its own column check
  (which the script makes on \<open>df\<close>), all under the check that the filtered table is not
  empty.
\<close>

definition chart :: "dataframe \<Rightarrow> dataframe \<Rightarrow> pystr list \<Rightarrow> (cell list \<times> rat) list option" where
  "chart df filtered ks =
     (if list_all (\<lambda>c. c \<in> set (columns df)) (ks @ [MonthlyCostUSD])
      then Some (groupby_sum filtered ks MonthlyCostUSD)
      else None)"

definition task4 ::
  "multiselect \<Rightarrow> dataframe \<Rightarrow>
   dataframe \<times> ((cell list \<times> rat) list option \<times> (cell list \<times> rat) list option \<times>
     (cell list \<times> rat) list option) option" where
  "task4 ms df =
     (let filtered = filtered_table ms df
      in (filtered,
          if \<not> df_empty filtered
          then Some (chart df filtered [Department, Tagged], chart df filtered [Service],
                     chart df filtered [Environment])
          else None))"

section \<open>Task 5: the editable table (lines 201--207)\<close>

text \<open>\<open>st.data_editor\<close> is the user's edit: a parameter from the table shown to the table returned.\<close>

definition task5 :: "(dataframe \<Rightarrow> dataframe) \<Rightarrow> dataframe \<Rightarrow> dataframe option" where
  "task5 data_editor df = (if \<not> df_empty df then Some (data_editor df) else None)"

section \<open>The script\<close>

record report =
  shown :: message
  missing_values :: "(pystr \<times> nat) list option"
  untagged_percentage :: "rat option"
  cost_by_tag :: "((cell list \<times> rat) list \<times> rat option) option"
  dept_untagged :: "(cell list \<times> rat) list option"
  project_cost :: "(cell list \<times> rat) list option"
  env_cost :: "(cell list \<times> rat) list option"
  table :: dataframe
  untagged_df :: dataframe
  filtered :: dataframe
  charts :: "((cell list \<times> rat) list option \<times> (cell list \<times> rat) list option \<times>
     (cell list \<times> rat) list option) option"
  edited_table :: "dataframe option"

text \<open>
  One run of the script from top to bottom. An exception outside the \<open>try\<close> block ends
  the run: \<open>Inl\<close>.
\<close>

definition run ::
  "(pystr \<Rightarrow> cell option) \<Rightarrow> multiselect \<Rightarrow> (dataframe \<Rightarrow> dataframe) \<Rightarrow> error + single_col \<Rightarrow>
   error + report" where
  "run parse ms data_editor rd =
     (case load parse rd of
        (df, msg) \<Rightarrow>
          (case task3 df of
             Inl e \<Rightarrow> Inl e
           | Inr (df', untagged) \<Rightarrow>
               Inr \<lparr>shown = msg,
                    missing_values = (if \<not> df_empty df then Some (missing_per_column df) else None),
                    untagged_percentage = pct_untagged df,
                    cost_by_tag = task2_1 df,
                    dept_untagged = task2_3 df,
                    project_cost = task2_4 df,
                    env_cost = task2_5 df,
                    table = df',
                    untagged_df = untagged,
                    filtered = fst (task4 ms df'),
                    charts = snd (task4 ms df'),
                    edited_table = task5 data_editor df'\<rparr>))"

section \<open>Sample inputs\<close>

text \<open>Small tables and a sample choice in the filter widgets, on which the model is run.\<close>

definition sample_ten :: dataframe where
  "sample_ten =
     \<lparr>columns = [ResourceID, Tagged],
      rows = [[Str (py ''r0''), Str (py ''Yes'')], [Str (py ''r1''), Str No],
              [Str (py ''r2''), Str (py ''Yes'')], [Str (py ''r3''), NaN],
              [Str (py ''r4''), Str No], [Str (py ''r5''), Str (py ''Yes'')],
              [Str (py ''r6''), Str (py ''Yes'')], [Str (py ''r7''), Str No],
              [Str (py ''r8''), Str (py ''Yes'')], [Str (py ''r9''), Str (py ''Yes'')]]\<rparr>"

definition sample_tags :: dataframe where
  "sample_tags =
     \<lparr>columns = [ResourceID, Department, Project, Environment, Owner, CostCenter, CreatedBy],
      rows = [[Str (py ''r1''), Str (py ''Sales''), Str (py ''Web''), Str (py ''Prod''),
               Str (py ''ann''), Str (py ''CC1''), Str (py ''bob'')],
              [Str (py ''r2''), NaN, NaN, NaN, NaN, NaN, NaN],
              [Str (py ''r3''), Str (py ''Sales''), NaN, NaN, Str (py ''ann''), NaN, NaN]]\<rparr>"

definition sample_inventory :: dataframe where
  "sample_inventory =
     \<lparr>columns = [ResourceID, Service, Region, Department, Tagged, MonthlyCostUSD],
      rows = [[Str (py ''r1''), Str (py ''EC2''), Str (py ''east''), Str (py ''Sales''),
               Str (py ''Yes''), Num 10],
              [Str (py ''r2''), NaN, Str (py ''east''), NaN, Str No, Num 5],
              [Str (py ''r3''), Str (py ''S3''), NaN, Str (py ''Sales''), NaN, Num 2]]\<rparr>"

definition choose_ec2 :: multiselect where
  "choose_ec2 label opts = (if label = filter_label Service then [Str (py ''EC2'')] else [])"

definition choose_east :: multiselect where
  "choose_east label opts =
     (if label = py ''Filter by Region'' then filter (\<lambda>v. v = Str (py ''east'')) opts else [])"


definition sample_owner :: dataframe where
  "sample_owner = \<lparr>columns = [ResourceID, Owner], rows = [[Str (py ''r1''), NaN]]\<rparr>"

text \<open>
  A sample reading of numbers for \<open>to_numeric\<close>: the unsigned decimal integers, every
  other string rejected.
\<close>

definition digits_value :: "pystr \<Rightarrow> int" where
  "digits_value s = foldl (\<lambda>a c. 10 * a + int (c - 48)) 0 s"

definition parse_digits :: "pystr \<Rightarrow> cell option" where
  "parse_digits s =
     (if s \<noteq> [] \<and> list_all (\<lambda>c. 48 \<le> c \<and> c \<le> 57) s then Some (IntV (digits_value s))
      else None)"

definition sample_bad_cost :: single_col where
  "sample_bad_cost =
     \<lparr>header_string = py ''ResourceID,MonthlyCostUSD'',
      data = Text [Some (py ''r1,10''), Some (py ''r2,abc'')]\<rparr>"

section \<open>Basic facts about frames\<close>

lemmas label_defs = Tagged_def MonthlyCostUSD_def Department_def Project_def Environment_def
  Owner_def CostCenter_def CreatedBy_def Service_def Region_def ResourceID_def
  CompletenessScore_def No_def py_def

lemma map_fst_filter_snd_zip: "map fst (filter snd (zip xs (map p xs))) = filter p xs"
  by (induction xs) auto

lemma columns_loc: "columns (loc df bs) = columns df"
  by (simp add: loc_def)

lemma cell_of_cong: "columns d = columns df \<Longrightarrow> cell_of d c r = cell_of df c r"
  by (simp add: cell_of_def)

lemma rows_loc_eq_mask:
  "rows (loc df (eq_mask (column df c) v)) = filter (\<lambda>r. cell_of df c r = v) (rows df)"
proof -
  have "eq_mask (column df c) v = map (\<lambda>r. cell_of df c r = v) (rows df)"
    by (simp add: eq_mask_def column_def)
  then show ?thesis
    by (simp add: loc_def map_fst_filter_snd_zip)
qed

lemma rows_loc_isin:
  "columns d = columns df \<Longrightarrow>
   rows (loc d (isin (column d c) vs)) = filter (\<lambda>r. cell_of df c r \<in> set vs) (rows d)"
proof -
  assume a: "columns d = columns df"
  have "isin (column d c) vs = map (\<lambda>r. cell_of df c r \<in> set vs) (rows d)"
    by (simp add: isin_def column_def cell_of_cong [OF a])
  then show ?thesis
    by (simp add: loc_def map_fst_filter_snd_zip)
qed

section \<open>The percentage of untagged resources\<close>

lemma length_filter_card:
  "length (filter p xs) = card {i. i < length xs \<and> p (xs ! i)}"
  by (rule length_filter_conv_card)

lemma pct_untagged_eq:
  "pct_untagged df =
     (if rows df \<noteq> [] \<and> columns df \<noteq> [] \<and> Tagged \<in> set (columns df) \<and>
         (\<exists>r\<in>set (rows df). cell_of df Tagged r = Str No)
      then Some (of_nat (card {i. i < length (rows df) \<and> cell_of df Tagged (rows df ! i) = Str No})
                  / of_nat (length (rows df)) * 100)
      else None)"
proof -
  let ?p = "\<lambda>r. cell_of df Tagged r = Str No"
  have mem: "Str No \<in> set (column df Tagged) \<longleftrightarrow> (\<exists>r\<in>set (rows df). ?p r)"
    by (force simp: column_def)
  show ?thesis
    unfolding pct_untagged_def df_empty_def rows_loc_eq_mask mem length_filter_card
    by simp
qed

text \<open>
  Claim C8, as amended. On a table with unique column labels, the percentage of untagged
  resources is the number of records with \<open>Tagged == "No"\<close> divided by the number of
  records, times 100, and it is computed exactly when the table is not empty, the
  \<open>Tagged\<close> column is present and at least one record has \<open>Tagged == "No"\<close>; otherwise the
  script computes no percentage at all (\<open>None\<close>), rather than 0. Ten records of which
  three are \<open>"No"\<close> give 30.
\<close>

theorem pct_untagged_amended:
  "well_formed df \<longrightarrow>
   pct_untagged df =
     (if rows df \<noteq> [] \<and> columns df \<noteq> [] \<and> Tagged \<in> set (columns df) \<and>
         (\<exists>r\<in>set (rows df). cell_of df Tagged r = Str No)
      then Some (of_nat (card {i. i < length (rows df) \<and> cell_of df Tagged (rows df ! i) = Str No})
                  / of_nat (length (rows df)) * 100)
      else None) \<and>
   (Tagged \<in> set (columns df) \<and> length (rows df) = 10 \<and>
    card {i. i < length (rows df) \<and> cell_of df Tagged (rows df ! i) = Str No} = 3
      \<longrightarrow> pct_untagged df = Some 30)"
proof (intro impI conjI)
  show "pct_untagged df =
     (if rows df \<noteq> [] \<and> columns df \<noteq> [] \<and> Tagged \<in> set (columns df) \<and>
         (\<exists>r\<in>set (rows df). cell_of df Tagged r = Str No)
      then Some (of_nat (card {i. i < length (rows df) \<and> cell_of df Tagged (rows df ! i) = Str No})
                  / of_nat (length (rows df)) * 100)
      else None)"
    by (rule pct_untagged_eq)
next
  let ?p = "\<lambda>r. cell_of df Tagged r = Str No"
  assume h: "Tagged \<in> set (columns df) \<and> length (rows df) = 10 \<and>
    card {i. i < length (rows df) \<and> cell_of df Tagged (rows df ! i) = Str No} = 3"
  then have t: "Tagged \<in> set (columns df)" and n: "length (rows df) = 10"
    and c: "card {i. i < length (rows df) \<and> ?p (rows df ! i)} = 3"
    by blast+
  have c': "card {i. i < 10 \<and> ?p (rows df ! i)} = 3"
    using c unfolding n .
  from n have ne: "rows df \<noteq> []" by auto
  from t have nc: "columns df \<noteq> []" by auto
  have "length (filter ?p (rows df)) = 3"
    using c by (simp only: length_filter_card)
  then have "filter ?p (rows df) \<noteq> []" by auto
  then have e: "\<exists>r\<in>set (rows df). ?p r"
    by (simp add: filter_empty_conv)
  have "pct_untagged df = Some (of_nat 3 / of_nat 10 * 100)"
    using t ne nc e by (simp only: pct_untagged_eq n c' simp_thms if_True)
  then show "pct_untagged df = Some 30" by simp
qed

theorem pct_untagged_amended_witness:
  "well_formed sample_ten \<and> pct_untagged sample_ten = Some 30"
proof -
  have wf: "well_formed sample_ten"
    by (simp add: sample_ten_def well_formed_def label_defs)
  have t: "Tagged \<in> set (columns sample_ten)"
    by (simp add: sample_ten_def)
  have n: "length (rows sample_ten) = 10"
    by (simp add: sample_ten_def)
  have "length (filter (\<lambda>r. cell_of sample_ten Tagged r = Str No) (rows sample_ten)) = 3"
    by (simp add: sample_ten_def cell_of_def label_defs)
  then have c: "card {i. i < length (rows sample_ten) \<and>
      cell_of sample_ten Tagged (rows sample_ten ! i) = Str No} = 3"
    by (simp only: length_filter_card)
  note r = pct_untagged_amended [of sample_ten, THEN mp, OF wf, THEN conjunct2, THEN mp]
  have "pct_untagged sample_ten = Some 30"
    by (rule r) (intro conjI t n c)
  with wf show ?thesis by (rule conjI)
qed

text \<open>
  Claim C8 as stated fails on the empty table: no percentage is computed there, so the
  result is not 0.
\<close>

theorem pct_untagged_empty_counterexample:
  "pct_untagged empty_frame \<noteq> Some 0"
  by (simp add: pct_untagged_def df_empty_def empty_frame_def)

section \<open>The completeness score\<close>

lemma distinct_all_tag_fields: "distinct all_tag_fields"
  by (simp add: all_tag_fields_def label_defs)

lemma length_all_tag_fields: "length all_tag_fields = 6"
  by (simp add: all_tag_fields_def)

lemma set_tag_fields: "set (tag_fields df) = set all_tag_fields \<inter> set (columns df)"
  by (auto simp: tag_fields_def)

lemma distinct_tag_fields: "distinct (tag_fields df)"
  by (simp add: tag_fields_def distinct_all_tag_fields)

lemma select_columns_tag_fields:
  "select_columns df (tag_fields df) =
     Inr \<lparr>columns = tag_fields df, rows = map (key_of df (tag_fields df)) (rows df)\<rparr>"
  by (simp add: select_columns_def list_all_iff set_tag_fields)

lemma score_row:
  "int (length (filter notnull (key_of df (tag_fields df) r))) =
     int (card {c \<in> set all_tag_fields \<inter> set (columns df). cell_of df c r \<noteq> NaN})"
proof -
  have "length (filter notnull (key_of df (tag_fields df) r)) =
        length (filter (\<lambda>c. cell_of df c r \<noteq> NaN) (tag_fields df))"
    by (simp add: key_of_def filter_map comp_def notnull_def)
  also have "\<dots> = card (set (filter (\<lambda>c. cell_of df c r \<noteq> NaN) (tag_fields df)))"
    by (rule distinct_card [symmetric]) (simp add: distinct_tag_fields)
  also have "set (filter (\<lambda>c. cell_of df c r \<noteq> NaN) (tag_fields df)) =
             {c \<in> set all_tag_fields \<inter> set (columns df). cell_of df c r \<noteq> NaN}"
    by (auto simp: set_tag_fields)
  finally show ?thesis by simp
qed

text \<open>
  Claim C9. On a table with unique column labels the score is computed for every record;
  it is the number of tag fields present in the schema whose value is not missing for that
  record, so it lies between 0 and the number of tag fields present; with all six tag
  fields present, a record with none of them missing scores 6 and a record with all of
  them missing scores 0.
\<close>

theorem completeness_score_count:
  "well_formed df \<longrightarrow>
   (\<exists>sc. completeness_score df (tag_fields df) = Inr sc \<and> length sc = length (rows df) \<and>
     (\<forall>i<length (rows df).
        sc ! i = int (card {c \<in> set all_tag_fields \<inter> set (columns df).
                              cell_of df c (rows df ! i) \<noteq> NaN}) \<and>
        0 \<le> sc ! i \<and> sc ! i \<le> int (card (set all_tag_fields \<inter> set (columns df))) \<and>
        (set all_tag_fields \<subseteq> set (columns df) \<and>
           (\<forall>c\<in>set all_tag_fields. cell_of df c (rows df ! i) \<noteq> NaN) \<longrightarrow> sc ! i = 6) \<and>
        (set all_tag_fields \<subseteq> set (columns df) \<and>
           (\<forall>c\<in>set all_tag_fields. cell_of df c (rows df ! i) = NaN) \<longrightarrow> sc ! i = 0)))"
proof
  assume "well_formed df"
  let ?sc = "map (\<lambda>r. int (length (filter notnull (key_of df (tag_fields df) r)))) (rows df)"
  let ?S = "set all_tag_fields \<inter> set (columns df)"
  have run: "completeness_score df (tag_fields df) = Inr ?sc"
    by (simp add: completeness_score_def select_columns_tag_fields comp_def)
  have card6: "card (set all_tag_fields) = 6"
    using distinct_card [OF distinct_all_tag_fields] length_all_tag_fields by simp
  have each: "?sc ! i = int (card {c \<in> ?S. cell_of df c (rows df ! i) \<noteq> NaN}) \<and>
        0 \<le> ?sc ! i \<and> ?sc ! i \<le> int (card ?S) \<and>
        (set all_tag_fields \<subseteq> set (columns df) \<and>
           (\<forall>c\<in>set all_tag_fields. cell_of df c (rows df ! i) \<noteq> NaN) \<longrightarrow> ?sc ! i = 6) \<and>
        (set all_tag_fields \<subseteq> set (columns df) \<and>
           (\<forall>c\<in>set all_tag_fields. cell_of df c (rows df ! i) = NaN) \<longrightarrow> ?sc ! i = 0)"
    if i: "i < length (rows df)" for i
  proof -
    let ?T = "{c \<in> ?S. cell_of df c (rows df ! i) \<noteq> NaN}"
    have v: "?sc ! i = int (card ?T)"
      using i by (simp add: score_row)
    have le: "card ?T \<le> card ?S"
      by (rule card_mono) auto
    have all: "?sc ! i = 6"
      if "set all_tag_fields \<subseteq> set (columns df) \<and>
          (\<forall>c\<in>set all_tag_fields. cell_of df c (rows df ! i) \<noteq> NaN)"
    proof -
      from that have "?T = set all_tag_fields" by auto
      with v card6 show ?thesis by simp
    qed
    have none: "?sc ! i = 0"
      if "set all_tag_fields \<subseteq> set (columns df) \<and>
          (\<forall>c\<in>set all_tag_fields. cell_of df c (rows df ! i) = NaN)"
    proof -
      from that have "?T = {}" by auto
      with v show ?thesis by simp
    qed
    from v le all none show ?thesis by auto
  qed
  show "\<exists>sc. completeness_score df (tag_fields df) = Inr sc \<and> length sc = length (rows df) \<and>
     (\<forall>i<length (rows df).
        sc ! i = int (card {c \<in> ?S. cell_of df c (rows df ! i) \<noteq> NaN}) \<and>
        0 \<le> sc ! i \<and> sc ! i \<le> int (card ?S) \<and>
        (set all_tag_fields \<subseteq> set (columns df) \<and>
           (\<forall>c\<in>set all_tag_fields. cell_of df c (rows df ! i) \<noteq> NaN) \<longrightarrow> sc ! i = 6) \<and>
        (set all_tag_fields \<subseteq> set (columns df) \<and>
           (\<forall>c\<in>set all_tag_fields. cell_of df c (rows df ! i) = NaN) \<longrightarrow> sc ! i = 0))"
  proof (intro exI [of _ ?sc] conjI)
    show "completeness_score df (tag_fields df) = Inr ?sc" by (rule run)
    show "length ?sc = length (rows df)" by simp
  qed (intro allI impI, rule each)
qed

theorem completeness_score_count_witness:
  "well_formed sample_tags \<and>
   (\<exists>sc. completeness_score sample_tags (tag_fields sample_tags) = Inr sc \<and>
         sc ! 0 = 6 \<and> sc ! 1 = 0)"
proof -
  have wf: "well_formed sample_tags"
    by (simp add: sample_tags_def well_formed_def label_defs)
  have sub: "set all_tag_fields \<subseteq> set (columns sample_tags)"
    by (simp add: sample_tags_def all_tag_fields_def)
  have l0: "0 < length (rows sample_tags)" and l1: "1 < length (rows sample_tags)"
    by (simp_all add: sample_tags_def)
  have f0: "\<forall>c\<in>set all_tag_fields. cell_of sample_tags c (rows sample_tags ! 0) \<noteq> NaN"
    by (simp add: sample_tags_def all_tag_fields_def cell_of_def label_defs)
  have f1: "\<forall>c\<in>set all_tag_fields. cell_of sample_tags c (rows sample_tags ! 1) = NaN"
    by (simp add: sample_tags_def all_tag_fields_def cell_of_def label_defs)
  from completeness_score_count [of sample_tags, THEN mp, OF wf]
  obtain sc where run: "completeness_score sample_tags (tag_fields sample_tags) = Inr sc"
    and each: "\<forall>i<length (rows sample_tags).
        sc ! i = int (card {c \<in> set all_tag_fields \<inter> set (columns sample_tags).
                              cell_of sample_tags c (rows sample_tags ! i) \<noteq> NaN}) \<and>
        0 \<le> sc ! i \<and> sc ! i \<le> int (card (set all_tag_fields \<inter> set (columns sample_tags))) \<and>
        (set all_tag_fields \<subseteq> set (columns sample_tags) \<and>
           (\<forall>c\<in>set all_tag_fields. cell_of sample_tags c (rows sample_tags ! i) \<noteq> NaN) \<longrightarrow> sc ! i = 6) \<and>
        (set all_tag_fields \<subseteq> set (columns sample_tags) \<and>
           (\<forall>c\<in>set all_tag_fields. cell_of sample_tags c (rows sample_tags ! i) = NaN) \<longrightarrow> sc ! i = 0)"
    by (elim exE conjE)
  from each l0 have "(set all_tag_fields \<subseteq> set (columns sample_tags) \<and>
           (\<forall>c\<in>set all_tag_fields. cell_of sample_tags c (rows sample_tags ! 0) \<noteq> NaN) \<longrightarrow> sc ! 0 = 6)"
    by blast
  with sub f0 have six: "sc ! 0 = 6" by blast
  from each l1 have "(set all_tag_fields \<subseteq> set (columns sample_tags) \<and>
           (\<forall>c\<in>set all_tag_fields. cell_of sample_tags c (rows sample_tags ! 1) = NaN) \<longrightarrow> sc ! 1 = 0)"
    by blast
  with sub f1 have zero: "sc ! 1 = 0" by blast
  from wf run six zero show ?thesis by blast
qed

section \<open>The category filters\<close>

lemma columns_apply_filter: "columns (apply_filter ms df c d) = columns d"
  by (simp add: apply_filter_def columns_loc)

lemma rows_apply_filter:
  "columns d = columns df \<Longrightarrow>
   rows (apply_filter ms df c d) =
     filter (\<lambda>r. c \<in> set (columns df) \<longrightarrow> selection ms df c \<noteq> [] \<longrightarrow>
                  cell_of df c r \<in> set (selection ms df c)) (rows d)"
  by (simp add: apply_filter_def rows_loc_isin)

lemma rows_filtered_table:
  "rows (filtered_table ms df) =
     filter (\<lambda>r. \<forall>c\<in>{Service, Region, Department}.
                  c \<in> set (columns df) \<longrightarrow> selection ms df c \<noteq> [] \<longrightarrow>
                  cell_of df c r \<in> set (selection ms df c)) (rows df)"
proof -
  let ?ok = "\<lambda>c r. c \<in> set (columns df) \<longrightarrow> selection ms df c \<noteq> [] \<longrightarrow>
                  cell_of df c r \<in> set (selection ms df c)"
  let ?f1 = "apply_filter ms df Service df"
  let ?f2 = "apply_filter ms df Region ?f1"
  have c1: "columns ?f1 = columns df" by (rule columns_apply_filter)
  have c2: "columns ?f2 = columns df" by (simp only: columns_apply_filter)
  have r1: "rows ?f1 = filter (?ok Service) (rows df)"
    by (rule rows_apply_filter) simp
  have r2: "rows ?f2 = filter (?ok Region) (rows ?f1)"
    by (rule rows_apply_filter [OF c1])
  have r3: "rows (filtered_table ms df) = filter (?ok Department) (rows ?f2)"
    unfolding filtered_table_def by (rule rows_apply_filter [OF c2])
  have "rows (filtered_table ms df) =
        filter (\<lambda>r. ?ok Service r \<and> ?ok Region r \<and> ?ok Department r) (rows df)"
    by (simp only: r3 r2 r1 filter_filter conj_assoc)
  also have "\<dots> = filter (\<lambda>r. \<forall>c\<in>{Service, Region, Department}. ?ok c r) (rows df)"
    by (rule filter_cong) (rule refl, blast)
  finally show ?thesis .
qed


lemma rows_filtered_table_widget:
  "rows (filtered_table ms df) =
     filter (\<lambda>r. \<forall>c\<in>{Service, Region, Department}.
                  c \<in> set (columns df) \<longrightarrow> ms (py ''Filter by '' @ c) (options df c) \<noteq> [] \<longrightarrow>
                  cell_of df c r \<in> set (ms (py ''Filter by '' @ c) (options df c))) (rows df)"
  using rows_filtered_table [of ms df] unfolding selection_def filter_label_def .

text \<open>
  Claim C5. The allowed values of a column are what the widget labelled
  \<open>Filter by\<close> followed by the column's name returns for the options offered; a widget
  exists only for the columns of Service, Region and Department that the table has. On a
  table with unique column labels: the filtered table keeps the columns; its records are
  exactly the records of the table, in their order, whose value is a member of the allowed
  values for every such column whose allowed values are not empty; it has at most as many
  records as the table; and with all allowed values empty it is the table unchanged.
\<close>

theorem filtered_table_membership:
  "well_formed df \<longrightarrow>
   columns (filtered_table ms df) = columns df \<and>
   rows (filtered_table ms df) =
     filter (\<lambda>r. \<forall>c\<in>{Service, Region, Department}.
                  c \<in> set (columns df) \<longrightarrow> ms (py ''Filter by '' @ c) (options df c) \<noteq> [] \<longrightarrow>
                  cell_of df c r \<in> set (ms (py ''Filter by '' @ c) (options df c))) (rows df) \<and>
   length (rows (filtered_table ms df)) \<le> length (rows df) \<and>
   ((\<forall>c\<in>{Service, Region, Department}.
       c \<in> set (columns df) \<longrightarrow> ms (py ''Filter by '' @ c) (options df c) = [])
      \<longrightarrow> filtered_table ms df = df)"
proof (intro impI conjI)
  show c: "columns (filtered_table ms df) = columns df"
    by (simp add: filtered_table_def columns_apply_filter)
  show r: "rows (filtered_table ms df) =
     filter (\<lambda>r. \<forall>c\<in>{Service, Region, Department}.
                  c \<in> set (columns df) \<longrightarrow> ms (py ''Filter by '' @ c) (options df c) \<noteq> [] \<longrightarrow>
                  cell_of df c r \<in> set (ms (py ''Filter by '' @ c) (options df c))) (rows df)"
    by (rule rows_filtered_table_widget)
  show "length (rows (filtered_table ms df)) \<le> length (rows df)"
    unfolding r by (rule length_filter_le)
  assume "\<forall>c\<in>{Service, Region, Department}.
       c \<in> set (columns df) \<longrightarrow> ms (py ''Filter by '' @ c) (options df c) = []"
  then show "filtered_table ms df = df"
    by (simp add: filtered_table_def apply_filter_def selection_def filter_label_def)
qed

theorem filtered_table_membership_witness:
  "well_formed sample_inventory \<and>
   rows (filtered_table choose_east sample_inventory) =
     [[Str (py ''r1''), Str (py ''EC2''), Str (py ''east''), Str (py ''Sales''),
       Str (py ''Yes''), Num 10],
      [Str (py ''r2''), NaN, Str (py ''east''), NaN, Str No, Num 5]] \<and>
   filtered_table (\<lambda>label opts. []) sample_inventory = sample_inventory"
proof -
  have wf: "well_formed sample_inventory"
    by (simp add: sample_inventory_def well_formed_def label_defs)
  note r = filtered_table_membership [of sample_inventory choose_east, THEN mp, OF wf,
      THEN conjunct2, THEN conjunct1]
  note e = filtered_table_membership [of sample_inventory "\<lambda>label opts. []", THEN mp, OF wf,
      THEN conjunct2, THEN conjunct2, THEN conjunct2, THEN mp]
  have opts: "options sample_inventory Region = [Str (py ''east'')]"
    by (simp add: options_def column_def cell_of_def notnull_def sample_inventory_def label_defs)
  have 1: "rows (filtered_table choose_east sample_inventory) =
     [[Str (py ''r1''), Str (py ''EC2''), Str (py ''east''), Str (py ''Sales''),
       Str (py ''Yes''), Num 10],
      [Str (py ''r2''), NaN, Str (py ''east''), NaN, Str No, Num 5]]"
    unfolding r
    by (simp add: choose_east_def opts) (simp add: sample_inventory_def cell_of_def label_defs)
  have 2: "filtered_table (\<lambda>label opts. []) sample_inventory = sample_inventory"
    by (rule e) simp
  from wf 1 2 show ?thesis by (intro conjI)
qed

lemma set_unique: "set (unique xs) = set xs"
  by (induction xs) auto

lemma distinct_unique: "distinct (unique xs)"
  by (induction xs) (auto simp: set_unique)

lemma set_options: "set (options df c) = set (column df c) - {NaN}"
  by (auto simp: options_def set_unique notnull_def)

lemma distinct_options: "distinct (options df c)"
  by (simp add: options_def distinct_unique)

text \<open>
  Claim C10. The options offered for a column are the non-missing values of the column,
  each once. On a table with unique column labels, when the widget of a present column of
  Service, Region and Department returns a non-empty choice among the options it was
  given, the missing value is not among the allowed values, every record of the filtered
  table has a value in that column, and every record whose value there is missing is
  excluded.
\<close>

theorem missing_never_selected:
  "set (options df c) = set (column df c) - {NaN} \<and>
   distinct (options df c) \<and>
   (well_formed df \<and> c \<in> {Service, Region, Department} \<and> c \<in> set (columns df) \<and>
    ms (py ''Filter by '' @ c) (options df c) \<noteq> [] \<and>
    set (ms (py ''Filter by '' @ c) (options df c)) \<subseteq> set (options df c) \<longrightarrow>
      NaN \<notin> set (ms (py ''Filter by '' @ c) (options df c)) \<and>
      (\<forall>r\<in>set (rows (filtered_table ms df)). cell_of df c r \<noteq> NaN) \<and>
      (\<forall>r\<in>set (rows df). cell_of df c r = NaN \<longrightarrow> r \<notin> set (rows (filtered_table ms df))))"
proof (intro conjI impI)
  show o: "set (options df c) = set (column df c) - {NaN}" by (rule set_options)
  show "distinct (options df c)" by (rule distinct_options)
  assume a: "well_formed df \<and> c \<in> {Service, Region, Department} \<and> c \<in> set (columns df) \<and>
    ms (py ''Filter by '' @ c) (options df c) \<noteq> [] \<and>
    set (ms (py ''Filter by '' @ c) (options df c)) \<subseteq> set (options df c)"
  let ?sel = "ms (py ''Filter by '' @ c) (options df c)"
  from a have c: "c \<in> {Service, Region, Department}" and p: "c \<in> set (columns df)"
    and s: "?sel \<noteq> []" and sub: "set ?sel \<subseteq> set (options df c)"
    by blast+
  from sub o show no: "NaN \<notin> set ?sel" by blast
  have sel: "cell_of df c r \<in> set ?sel"
    if "r \<in> set (rows (filtered_table ms df))" for r
    using that c p s unfolding rows_filtered_table_widget by auto
  have keep: "cell_of df c r \<noteq> NaN" if "r \<in> set (rows (filtered_table ms df))" for r
    using sel [OF that] no by auto
  show "\<forall>r\<in>set (rows (filtered_table ms df)). cell_of df c r \<noteq> NaN"
    using keep by blast
  show "\<forall>r\<in>set (rows df). cell_of df c r = NaN \<longrightarrow> r \<notin> set (rows (filtered_table ms df))"
    using keep by blast
qed

theorem missing_never_selected_witness:
  "set (options sample_inventory Service) = {Str (py ''EC2''), Str (py ''S3'')} \<and>
   well_formed sample_inventory \<and>
   choose_ec2 (py ''Filter by '' @ Service) (options sample_inventory Service) = [Str (py ''EC2'')] \<and>
   list_all (\<lambda>r. cell_of sample_inventory Service r \<noteq> NaN)
     (rows (filtered_table choose_ec2 sample_inventory)) \<and>
   [Str (py ''r2''), NaN, Str (py ''east''), NaN, Str No, Num 5]
     \<notin> set (rows (filtered_table choose_ec2 sample_inventory))"
proof -
  note t = missing_never_selected [of sample_inventory Service choose_ec2]
  have wf: "well_formed sample_inventory"
    by (simp add: sample_inventory_def well_formed_def label_defs)
  have c: "Service \<in> {Service, Region, Department}" by simp
  have p: "Service \<in> set (columns sample_inventory)"
    by (simp add: sample_inventory_def)
  have col: "column sample_inventory Service = [Str (py ''EC2''), NaN, Str (py ''S3'')]"
    by (simp add: column_def cell_of_def sample_inventory_def label_defs)
  have o: "set (options sample_inventory Service) = {Str (py ''EC2''), Str (py ''S3'')}"
    unfolding t [THEN conjunct1] col by auto
  have sel: "choose_ec2 (py ''Filter by '' @ Service) (options sample_inventory Service)
      = [Str (py ''EC2'')]"
    by (simp add: choose_ec2_def filter_label_def)
  have s: "choose_ec2 (py ''Filter by '' @ Service) (options sample_inventory Service) \<noteq> []"
    by (simp add: sel)
  have sub: "set (choose_ec2 (py ''Filter by '' @ Service) (options sample_inventory Service))
      \<subseteq> set (options sample_inventory Service)"
    unfolding sel o by simp
  from wf c p s sub have hyp: "well_formed sample_inventory \<and>
      Service \<in> {Service, Region, Department} \<and> Service \<in> set (columns sample_inventory) \<and>
      choose_ec2 (py ''Filter by '' @ Service) (options sample_inventory Service) \<noteq> [] \<and>
      set (choose_ec2 (py ''Filter by '' @ Service) (options sample_inventory Service))
        \<subseteq> set (options sample_inventory Service)"
    by (intro conjI)
  note k = t [THEN conjunct2, THEN conjunct2, THEN mp, OF hyp]
  have 1: "list_all (\<lambda>r. cell_of sample_inventory Service r \<noteq> NaN)
     (rows (filtered_table choose_ec2 sample_inventory))"
    unfolding list_all_iff by (rule k [THEN conjunct2, THEN conjunct1])
  have r2: "[Str (py ''r2''), NaN, Str (py ''east''), NaN, Str No, Num 5]
      \<in> set (rows sample_inventory)"
    by (simp add: sample_inventory_def)
  have m: "cell_of sample_inventory Service
      [Str (py ''r2''), NaN, Str (py ''east''), NaN, Str No, Num 5] = NaN"
    by (simp add: cell_of_def sample_inventory_def label_defs)
  have 2: "[Str (py ''r2''), NaN, Str (py ''east''), NaN, Str No, Num 5]
     \<notin> set (rows (filtered_table choose_ec2 sample_inventory))"
    by (rule k [THEN conjunct2, THEN conjunct2, THEN bspec, OF r2, THEN mp, OF m])
  from o wf sel 1 2 show ?thesis by (intro conjI)
qed

section \<open>The cost by tag status\<close>
















section \<open>The incomplete resources\<close>

lemma incomplete_rows_eq:
  "incomplete_rows df tf =
     (if set tf \<subseteq> set (columns df)
      then Inr (df\<lparr>rows := filter (\<lambda>r. list_ex isnull (key_of df tf r)) (rows df)\<rparr>)
      else Inl KeyError)"
proof -
  have m: "map (list_ex isnull) (map (key_of df tf) (rows df)) =
        map (\<lambda>r. list_ex isnull (key_of df tf r)) (rows df)"
    by simp
  have l: "list_all (\<lambda>c. c \<in> set (columns df)) tf \<longleftrightarrow> set tf \<subseteq> set (columns df)"
    by (auto simp: list_all_iff)
  show ?thesis
    unfolding incomplete_rows_def incomplete_mask_def select_columns_def l
    by (simp add: loc_def m map_fst_filter_snd_zip del: map_map)
qed

lemma missing_key: "list_ex isnull (key_of df tf r) \<longleftrightarrow> (\<exists>c\<in>set tf. cell_of df c r = NaN)"
proof -
  have "list_ex isnull (key_of df tf r) \<longleftrightarrow> (\<exists>c\<in>set tf. isnull (cell_of df c r))"
    by (simp add: list_ex_iff key_of_def)
  then show ?thesis
    unfolding isnull_def .
qed

lemma key_of_cong: "columns d = columns df \<Longrightarrow> key_of d tf r = key_of df tf r"
  by (simp add: key_of_def cell_of_def)

lemma index_of_less: "x \<in> set xs \<Longrightarrow> index_of x xs < length xs"
  by (induction xs) auto

lemma incomplete_rows_idem:
  "incomplete_rows df tf = Inr sel \<Longrightarrow> incomplete_rows sel tf = Inr sel"
proof -
  assume a: "incomplete_rows df tf = Inr sel"
  then have sub: "set tf \<subseteq> set (columns df)"
    and sel: "sel = df\<lparr>rows := filter (\<lambda>r. list_ex isnull (key_of df tf r)) (rows df)\<rparr>"
    by (auto simp: incomplete_rows_eq split: if_splits)
  have c: "columns sel = columns df" by (simp add: sel)
  have k: "key_of sel tf = key_of df tf"
    by (rule ext) (rule key_of_cong [OF c])
  have "incomplete_rows sel tf =
        Inr (sel\<lparr>rows := filter (\<lambda>r. list_ex isnull (key_of df tf r)) (rows sel)\<rparr>)"
    using sub by (simp add: incomplete_rows_eq c k)
  also have "filter (\<lambda>r. list_ex isnull (key_of df tf r)) (rows sel) = rows sel"
    by (simp add: sel)
  finally show ?thesis by simp
qed

lemma fillna_no_missing:
  assumes wf: "well_formed df" and sub: "set tf \<subseteq> set (columns df)"
    and r: "r \<in> set (rows (fillna_empty df))"
  shows "\<not> list_ex isnull (key_of (fillna_empty df) tf r)"
proof -
  from r obtain r0 where r0: "r0 \<in> set (rows df)"
    and rr: "r = map (\<lambda>c. if isnull c then Str [] else c) r0"
    by (auto simp: fillna_empty_def)
  from wf r0 have len: "length r0 = length (columns df)"
    by (simp add: well_formed_def list_all_iff)
  have "cell_of (fillna_empty df) c r \<noteq> NaN" if "c \<in> set tf" for c
  proof -
    from that sub have "c \<in> set (columns df)" by blast
    then have "index_of c (columns df) < length r0"
      using index_of_less len by fastforce
    then show ?thesis
      by (simp add: cell_of_def fillna_empty_def rr isnull_def Let_def)
  qed
  then have "\<not> (\<exists>c\<in>set tf. cell_of (fillna_empty df) c r = NaN)"
    by blast
  then show ?thesis
    by (simp add: missing_key)
qed

lemma well_formed_filter:
  "well_formed df \<Longrightarrow> well_formed (df\<lparr>rows := filter p (rows df)\<rparr>)"
  by (simp add: well_formed_def list_all_iff)

lemma incomplete_resources_twice:
  assumes wf: "well_formed df" and a: "incomplete_resources df tf = Inr out"
  shows "incomplete_resources out tf = Inr (out\<lparr>rows := []\<rparr>)"
proof -
  from a obtain sel where s: "incomplete_rows df tf = Inr sel" and o: "out = fillna_empty sel"
    by (auto simp: incomplete_resources_def split: sum.splits)
  from s have sub: "set tf \<subseteq> set (columns df)"
    and sel: "sel = df\<lparr>rows := filter (\<lambda>r. list_ex isnull (key_of df tf r)) (rows df)\<rparr>"
    by (auto simp: incomplete_rows_eq split: if_splits)
  have wfs: "well_formed sel" unfolding sel by (rule well_formed_filter [OF wf])
  have cs: "columns sel = columns df" by (simp add: sel)
  have co: "columns out = columns df" by (simp add: o fillna_empty_def cs)
  have sub': "set tf \<subseteq> set (columns sel)" using sub cs by simp
  have "\<And>r. r \<in> set (rows out) \<Longrightarrow> \<not> list_ex isnull (key_of out tf r)"
    unfolding o by (rule fillna_no_missing [OF wfs sub'])
  then have none: "filter (\<lambda>r. list_ex isnull (key_of out tf r)) (rows out) = []"
    by (simp add: filter_empty_conv)
  have "incomplete_rows out tf = Inr (out\<lparr>rows := []\<rparr>)"
    using sub by (simp add: incomplete_rows_eq co none)
  then show ?thesis
    by (simp add: incomplete_resources_def fillna_empty_def)
qed

text \<open>
  Claim C2, as amended. On a table with unique column labels that has the tag fields: the
  selection keeps the columns and exactly the records with a missing tag field, and the
  result shown is that selection with every missing value replaced by the empty string.
  Selecting again from the selection gives the selection back. Applying the whole
  operation to its own result gives no record, because the result has no missing value
  left.
\<close>

theorem incomplete_rows_idempotent_until_filled:
  "well_formed df \<and> set tf \<subseteq> set (columns df) \<longrightarrow>
   (\<exists>sel out. incomplete_rows df tf = Inr sel \<and> incomplete_resources df tf = Inr out \<and>
      columns sel = columns df \<and>
      rows sel = filter (\<lambda>r. \<exists>c\<in>set tf. cell_of df c r = NaN) (rows df) \<and>
      columns out = columns df \<and>
      rows out = map (map (\<lambda>v. if v = NaN then Str [] else v)) (rows sel) \<and>
      incomplete_rows sel tf = Inr sel \<and>
      incomplete_resources out tf = Inr (out\<lparr>rows := []\<rparr>))"
proof
  assume a: "well_formed df \<and> set tf \<subseteq> set (columns df)"
  then have wf: "well_formed df" and sub: "set tf \<subseteq> set (columns df)" by blast+
  let ?sel = "df\<lparr>rows := filter (\<lambda>r. list_ex isnull (key_of df tf r)) (rows df)\<rparr>"
  let ?out = "fillna_empty ?sel"
  have s: "incomplete_rows df tf = Inr ?sel"
    using sub by (simp add: incomplete_rows_eq)
  have o: "incomplete_resources df tf = Inr ?out"
    by (simp add: incomplete_resources_def s)
  have 1: "columns ?sel = columns df" by simp
  have 2: "rows ?sel = filter (\<lambda>r. \<exists>c\<in>set tf. cell_of df c r = NaN) (rows df)"
    by (simp add: missing_key)
  have 3: "columns ?out = columns df" by (simp add: fillna_empty_def)
  have 4: "rows ?out = map (map (\<lambda>v. if v = NaN then Str [] else v)) (rows ?sel)"
    by (simp add: fillna_empty_def isnull_def)
  have 5: "incomplete_rows ?sel tf = Inr ?sel" by (rule incomplete_rows_idem [OF s])
  have 6: "incomplete_resources ?out tf = Inr (?out\<lparr>rows := []\<rparr>)"
    by (rule incomplete_resources_twice [OF wf o])
  show "\<exists>sel out. incomplete_rows df tf = Inr sel \<and> incomplete_resources df tf = Inr out \<and>
      columns sel = columns df \<and>
      rows sel = filter (\<lambda>r. \<exists>c\<in>set tf. cell_of df c r = NaN) (rows df) \<and>
      columns out = columns df \<and>
      rows out = map (map (\<lambda>v. if v = NaN then Str [] else v)) (rows sel) \<and>
      incomplete_rows sel tf = Inr sel \<and>
      incomplete_resources out tf = Inr (out\<lparr>rows := []\<rparr>)"
    by (intro exI [of _ ?sel] exI [of _ ?out] conjI) (rule s, rule o, rule 1, rule 2, rule 3,
        rule 4, rule 5, rule 6)
qed

theorem incomplete_rows_idempotent_until_filled_witness:
  "rows (projr (incomplete_resources sample_tags all_tag_fields)) =
     [[Str (py ''r2''), Str [], Str [], Str [], Str [], Str [], Str []],
      [Str (py ''r3''), Str (py ''Sales''), Str [], Str [], Str (py ''ann''), Str [], Str []]] \<and>
   rows (projr (incomplete_resources
           (projr (incomplete_resources sample_tags all_tag_fields)) all_tag_fields)) = []"
proof -
  have h: "well_formed sample_tags \<and> set all_tag_fields \<subseteq> set (columns sample_tags)"
    by (simp add: sample_tags_def well_formed_def all_tag_fields_def label_defs)
  from incomplete_rows_idempotent_until_filled [of sample_tags all_tag_fields, THEN mp, OF h]
  obtain sel where "\<exists>out. incomplete_rows sample_tags all_tag_fields = Inr sel \<and>
      incomplete_resources sample_tags all_tag_fields = Inr out \<and>
      columns sel = columns sample_tags \<and>
      rows sel =
        filter (\<lambda>r. \<exists>c\<in>set all_tag_fields. cell_of sample_tags c r = NaN) (rows sample_tags) \<and>
      columns out = columns sample_tags \<and>
      rows out = map (map (\<lambda>v. if v = NaN then Str [] else v)) (rows sel) \<and>
      incomplete_rows sel all_tag_fields = Inr sel \<and>
      incomplete_resources out all_tag_fields = Inr (out\<lparr>rows := []\<rparr>)" ..
  then obtain out where all: "incomplete_rows sample_tags all_tag_fields = Inr sel \<and>
      incomplete_resources sample_tags all_tag_fields = Inr out \<and>
      columns sel = columns sample_tags \<and>
      rows sel =
        filter (\<lambda>r. \<exists>c\<in>set all_tag_fields. cell_of sample_tags c r = NaN) (rows sample_tags) \<and>
      columns out = columns sample_tags \<and>
      rows out = map (map (\<lambda>v. if v = NaN then Str [] else v)) (rows sel) \<and>
      incomplete_rows sel all_tag_fields = Inr sel \<and>
      incomplete_resources out all_tag_fields = Inr (out\<lparr>rows := []\<rparr>)" ..
  note o = all [THEN conjunct2, THEN conjunct1]
  note rs = all [THEN conjunct2, THEN conjunct2, THEN conjunct2, THEN conjunct1]
  note ro = all [THEN conjunct2, THEN conjunct2, THEN conjunct2, THEN conjunct2, THEN conjunct2,
      THEN conjunct1]
  note tw = all [THEN conjunct2, THEN conjunct2, THEN conjunct2, THEN conjunct2, THEN conjunct2,
      THEN conjunct2, THEN conjunct2]
  have f: "filter (\<lambda>r. \<exists>c\<in>set all_tag_fields. cell_of sample_tags c r = NaN) (rows sample_tags) =
      [[Str (py ''r2''), NaN, NaN, NaN, NaN, NaN, NaN],
       [Str (py ''r3''), Str (py ''Sales''), NaN, NaN, Str (py ''ann''), NaN, NaN]]"
    by (simp add: all_tag_fields_def cell_of_def sample_tags_def label_defs)
  have 1: "rows (projr (incomplete_resources sample_tags all_tag_fields)) =
     [[Str (py ''r2''), Str [], Str [], Str [], Str [], Str [], Str []],
      [Str (py ''r3''), Str (py ''Sales''), Str [], Str [], Str (py ''ann''), Str [], Str []]]"
    unfolding o sum.sel ro rs f by simp
  have 2: "rows (projr (incomplete_resources
           (projr (incomplete_resources sample_tags all_tag_fields)) all_tag_fields)) = []"
    unfolding o sum.sel tw by simp
  from 1 2 show ?thesis by (rule conjI)
qed

lemma incomplete_resources_sample_owner:
  "incomplete_resources sample_owner [Owner] =
     Inr \<lparr>columns = [ResourceID, Owner], rows = [[Str (py ''r1''), Str []]]\<rparr>"
  by (simp add: incomplete_resources_def incomplete_rows_eq fillna_empty_def key_of_def
        cell_of_def isnull_def sample_owner_def label_defs)

lemma incomplete_resources_filled:
  "incomplete_resources \<lparr>columns = [ResourceID, Owner], rows = [[Str (py ''r1''), Str []]]\<rparr> [Owner] =
     Inr \<lparr>columns = [ResourceID, Owner], rows = []\<rparr>"
  by (simp add: incomplete_resources_def incomplete_rows_eq fillna_empty_def key_of_def
        cell_of_def isnull_def label_defs)

theorem incomplete_resources_not_idempotent_counterexample:
  "incomplete_resources sample_owner [Owner] =
     Inr \<lparr>columns = [ResourceID, Owner], rows = [[Str (py ''r1''), Str []]]\<rparr> \<and>
   incomplete_resources (projr (incomplete_resources sample_owner [Owner])) [Owner] =
     Inr \<lparr>columns = [ResourceID, Owner], rows = []\<rparr> \<and>
   incomplete_resources (projr (incomplete_resources sample_owner [Owner])) [Owner] \<noteq>
     incomplete_resources sample_owner [Owner]"
  unfolding incomplete_resources_sample_owner sum.sel incomplete_resources_filled by simp

section \<open>The table after the compliance block\<close>

lemma index_of_append: "x \<in> set xs \<Longrightarrow> index_of x (xs @ ys) = index_of x xs"
  by (induction xs) auto

lemma index_of_new: "x \<notin> set xs \<Longrightarrow> index_of x (xs @ [x]) = length xs"
  by (induction xs) auto

lemma index_of_inj: "x \<in> set xs \<Longrightarrow> index_of x xs = index_of y xs \<Longrightarrow> y \<in> set xs \<Longrightarrow> x = y"
  by (induction xs) (auto split: if_splits)

lemma columns_assign:
  "columns (assign df c vs) = (if c \<in> set (columns df) then columns df else columns df @ [c])"
  by (simp add: assign_def)

lemma length_rows_assign:
  "length vs = length (rows df) \<Longrightarrow> length (rows (assign df c vs)) = length (rows df)"
  by (simp add: assign_def)

lemma row_assign:
  "length vs = length (rows df) \<Longrightarrow> i < length (rows df) \<Longrightarrow>
   rows (assign df c vs) ! i =
     (if c \<in> set (columns df) then (rows df ! i)[index_of c (columns df) := vs ! i]
      else rows df ! i @ [vs ! i])"
  by (simp add: assign_def)

lemma column_assign_other:
  assumes wf: "well_formed df" and len: "length vs = length (rows df)"
    and c': "c' \<in> set (columns df)" and ne: "c' \<noteq> c"
  shows "column (assign df c vs) c' = column df c'"
proof (rule nth_equalityI)
  show "length (column (assign df c vs) c') = length (column df c')"
    using len by (simp add: column_def length_rows_assign)
next
  fix i assume "i < length (column (assign df c vs) c')"
  then have i: "i < length (rows df)" using len by (simp add: column_def length_rows_assign)
  have i': "i < length (rows (assign df c vs))" using i len by (simp add: length_rows_assign)
  let ?r = "rows df ! i"
  from wf i have lr: "length ?r = length (columns df)"
    by (simp add: well_formed_def list_all_length)
  have j: "index_of c' (columns df) < length ?r"
    using index_of_less [OF c'] lr by simp
  have "cell_of (assign df c vs) c' (rows (assign df c vs) ! i) = cell_of df c' ?r"
  proof (cases "c \<in> set (columns df)")
    case True
    have "index_of c (columns df) \<noteq> index_of c' (columns df)"
      using index_of_inj [OF True _ c'] ne by auto
    then show ?thesis
      using True j by (simp add: row_assign [OF len i] cell_of_def columns_assign)
  next
    case False
    then show ?thesis
      using j c' by (simp add: row_assign [OF len i] cell_of_def columns_assign index_of_append
          nth_append)
  qed
  then show "column (assign df c vs) c' ! i = column df c' ! i"
    using i i' by (simp add: column_def)
qed

lemma column_assign_same:
  assumes wf: "well_formed df" and len: "length vs = length (rows df)"
  shows "column (assign df c vs) c = vs"
proof (rule nth_equalityI)
  show "length (column (assign df c vs) c) = length vs"
    using len by (simp add: column_def length_rows_assign)
next
  fix i assume "i < length (column (assign df c vs) c)"
  then have i: "i < length (rows df)" using len by (simp add: column_def length_rows_assign)
  have i': "i < length (rows (assign df c vs))" using i len by (simp add: length_rows_assign)
  let ?r = "rows df ! i"
  from wf i have lr: "length ?r = length (columns df)"
    by (simp add: well_formed_def list_all_length)
  have "cell_of (assign df c vs) c (rows (assign df c vs) ! i) = vs ! i"
  proof (cases "c \<in> set (columns df)")
    case True
    then show ?thesis
      using lr index_of_less [OF True] by (simp add: row_assign [OF len i] cell_of_def columns_assign)
  next
    case False
    then show ?thesis
      using lr by (simp add: row_assign [OF len i] cell_of_def columns_assign index_of_new
          nth_append)
  qed
  then show "column (assign df c vs) c ! i = vs ! i"
    using i i' by (simp add: column_def)
qed

lemma completeness_score_tag_fields:
  "completeness_score df (tag_fields df) =
     Inr (map (\<lambda>r. int (length (filter notnull (key_of df (tag_fields df) r)))) (rows df))"
  by (simp add: completeness_score_def select_columns_tag_fields comp_def)

lemma ResourceID_not_score: "ResourceID \<noteq> CompletenessScore"
  by (simp add: label_defs)

lemma task3_skips: "df_empty df \<or> tag_fields df = [] \<Longrightarrow> task3 df = Inr (df, empty_frame)"
  by (auto simp: task3_def)

lemma task3_runs:
  assumes run: "\<not> df_empty df" "tag_fields df \<noteq> []"
    and sc: "completeness_score df (tag_fields df) = Inr sc"
    and d: "d = assign df CompletenessScore (map IntV sc)"
  shows "task3 df =
     (if ResourceID \<in> set (columns df)
      then Inr (d, fillna_empty
                  (d\<lparr>rows := filter (\<lambda>r. list_ex isnull (key_of d (tag_fields df) r)) (rows d)\<rparr>))
      else Inl KeyError)"
proof -
  have cd: "set (columns d) = insert CompletenessScore (set (columns df))"
    unfolding d by (auto simp: columns_assign)
  have sub: "set (tag_fields df) \<subseteq> set (columns d)"
    unfolding cd by (auto simp: set_tag_fields)
  have inc: "incomplete_resources d (tag_fields df) =
      Inr (fillna_empty
             (d\<lparr>rows := filter (\<lambda>r. list_ex isnull (key_of d (tag_fields df) r)) (rows d)\<rparr>))"
    using sub by (simp add: incomplete_resources_def incomplete_rows_eq)
  have sel: "select_columns d [ResourceID, CompletenessScore] =
      (if ResourceID \<in> set (columns df)
       then Inr \<lparr>columns = [ResourceID, CompletenessScore],
                 rows = map (key_of d [ResourceID, CompletenessScore]) (rows d)\<rparr>
       else Inl KeyError)"
    using ResourceID_not_score by (simp add: select_columns_def cd)
  have "task3 df =
     (case select_columns d [ResourceID, CompletenessScore] of
        Inl e \<Rightarrow> Inl e
      | Inr head_shown \<Rightarrow>
          (case incomplete_resources d (tag_fields df) of
             Inl e \<Rightarrow> Inl e
           | Inr incomplete_df \<Rightarrow> Inr (d, incomplete_df)))"
    using run unfolding d by (simp add: task3_def sc Let_def)
  then show ?thesis
    by (simp add: sel inc)
qed

text \<open>
  Claim C3, as amended. Line 110 assigns the score as a column of the loaded table. On a
  table with unique column labels: when the block is skipped (empty table or no tag
  field) the table is unchanged; otherwise, where \<open>ResourceID\<close> is a column, the table
  after the block has the column \<open>CompletenessScore\<close> holding the scores (appended, or
  in the place of a column of that name), the same number of records and every other
  column with the cell values it had, and the incomplete resources are computed from that
  table without changing it. Without a \<open>ResourceID\<close> column line 113 raises.
\<close>

theorem task3_adds_only_score_column:
  "well_formed df \<longrightarrow>
   (df_empty df \<or> tag_fields df = [] \<longrightarrow> task3 df = Inr (df, empty_frame)) \<and>
   (\<not> df_empty df \<and> tag_fields df \<noteq> [] \<and> ResourceID \<notin> set (columns df) \<longrightarrow>
      task3 df = Inl KeyError) \<and>
   (\<not> df_empty df \<and> tag_fields df \<noteq> [] \<and> ResourceID \<in> set (columns df) \<longrightarrow>
      (\<exists>df' u sc.
         task3 df = Inr (df', u) \<and>
         completeness_score df (tag_fields df) = Inr sc \<and>
         columns df' =
           (if CompletenessScore \<in> set (columns df) then columns df
            else columns df @ [CompletenessScore]) \<and>
         length (rows df') = length (rows df) \<and>
         (\<forall>c\<in>set (columns df). c \<noteq> CompletenessScore \<longrightarrow> column df' c = column df c) \<and>
         column df' CompletenessScore = map IntV sc \<and>
         incomplete_resources df' (tag_fields df) = Inr u))"
proof (intro impI conjI)
  assume "df_empty df \<or> tag_fields df = []"
  then show "task3 df = Inr (df, empty_frame)" by (rule task3_skips)
next
  let ?sc = "map (\<lambda>r. int (length (filter notnull (key_of df (tag_fields df) r)))) (rows df)"
  let ?d = "assign df CompletenessScore (map IntV ?sc)"
  assume "\<not> df_empty df \<and> tag_fields df \<noteq> [] \<and> ResourceID \<notin> set (columns df)"
  then have run: "\<not> df_empty df" "tag_fields df \<noteq> []" and rid: "ResourceID \<notin> set (columns df)"
    by blast+
  show "task3 df = Inl KeyError"
    unfolding task3_runs [OF run completeness_score_tag_fields refl] using rid by simp
next
  let ?sc = "map (\<lambda>r. int (length (filter notnull (key_of df (tag_fields df) r)))) (rows df)"
  let ?d = "assign df CompletenessScore (map IntV ?sc)"
  let ?u = "fillna_empty
      (?d\<lparr>rows := filter (\<lambda>r. list_ex isnull (key_of ?d (tag_fields df) r)) (rows ?d)\<rparr>)"
  assume wf: "well_formed df"
  assume "\<not> df_empty df \<and> tag_fields df \<noteq> [] \<and> ResourceID \<in> set (columns df)"
  then have run: "\<not> df_empty df" "tag_fields df \<noteq> []" and rid: "ResourceID \<in> set (columns df)"
    by blast+
  have len: "length (map IntV ?sc) = length (rows df)" by simp
  have 1: "task3 df = Inr (?d, ?u)"
    unfolding task3_runs [OF run completeness_score_tag_fields refl] using rid by simp
  have 2: "completeness_score df (tag_fields df) = Inr ?sc"
    by (rule completeness_score_tag_fields)
  have 3: "columns ?d =
           (if CompletenessScore \<in> set (columns df) then columns df
            else columns df @ [CompletenessScore])"
    by (rule columns_assign)
  have 4: "length (rows ?d) = length (rows df)"
    by (rule length_rows_assign [OF len])
  have 5: "\<forall>c\<in>set (columns df). c \<noteq> CompletenessScore \<longrightarrow> column ?d c = column df c"
    by (intro ballI impI) (rule column_assign_other [OF wf len])
  have 6: "column ?d CompletenessScore = map IntV ?sc"
    by (rule column_assign_same [OF wf len])
  have sub: "set (tag_fields df) \<subseteq> set (columns ?d)"
    unfolding 3 by (auto simp: set_tag_fields)
  have 7: "incomplete_resources ?d (tag_fields df) = Inr ?u"
    using sub by (simp add: incomplete_resources_def incomplete_rows_eq)
  show "\<exists>df' u sc.
         task3 df = Inr (df', u) \<and>
         completeness_score df (tag_fields df) = Inr sc \<and>
         columns df' =
           (if CompletenessScore \<in> set (columns df) then columns df
            else columns df @ [CompletenessScore]) \<and>
         length (rows df') = length (rows df) \<and>
         (\<forall>c\<in>set (columns df). c \<noteq> CompletenessScore \<longrightarrow> column df' c = column df c) \<and>
         column df' CompletenessScore = map IntV sc \<and>
         incomplete_resources df' (tag_fields df) = Inr u"
    by (intro exI [of _ ?d] exI [of _ ?u] exI [of _ ?sc] conjI)
      (rule 1, rule 2, rule 3, rule 4, rule 5, rule 6, rule 7)
qed

lemma completeness_score_sample_owner:
  "completeness_score sample_owner (tag_fields sample_owner) = Inr [0]"
  by (simp add: completeness_score_def select_columns_def tag_fields_def all_tag_fields_def
        key_of_def cell_of_def notnull_def sample_owner_def label_defs)

theorem task3_adds_only_score_column_witness:
  "columns (fst (projr (task3 sample_owner))) = [ResourceID, Owner, CompletenessScore] \<and>
   length (rows (fst (projr (task3 sample_owner)))) = 1 \<and>
   column (fst (projr (task3 sample_owner))) ResourceID = [Str (py ''r1'')] \<and>
   column (fst (projr (task3 sample_owner))) Owner = [NaN] \<and>
   column (fst (projr (task3 sample_owner))) CompletenessScore = [IntV 0] \<and>
   task3 empty_frame = Inr (empty_frame, empty_frame)"
proof -
  have wf: "well_formed sample_owner"
    by (simp add: sample_owner_def well_formed_def label_defs)
  have h: "\<not> df_empty sample_owner \<and> tag_fields sample_owner \<noteq> [] \<and>
      ResourceID \<in> set (columns sample_owner)"
    by (simp add: df_empty_def tag_fields_def all_tag_fields_def sample_owner_def label_defs)
  note t = task3_adds_only_score_column [of sample_owner, THEN mp, OF wf, THEN conjunct2,
      THEN conjunct2, THEN mp, OF h]
  from t obtain df' where "\<exists>u sc.
         task3 sample_owner = Inr (df', u) \<and>
         completeness_score sample_owner (tag_fields sample_owner) = Inr sc \<and>
         columns df' =
           (if CompletenessScore \<in> set (columns sample_owner) then columns sample_owner
            else columns sample_owner @ [CompletenessScore]) \<and>
         length (rows df') = length (rows sample_owner) \<and>
         (\<forall>c\<in>set (columns sample_owner).
            c \<noteq> CompletenessScore \<longrightarrow> column df' c = column sample_owner c) \<and>
         column df' CompletenessScore = map IntV sc \<and>
         incomplete_resources df' (tag_fields sample_owner) = Inr u" ..
  then obtain u where "\<exists>sc.
         task3 sample_owner = Inr (df', u) \<and>
         completeness_score sample_owner (tag_fields sample_owner) = Inr sc \<and>
         columns df' =
           (if CompletenessScore \<in> set (columns sample_owner) then columns sample_owner
            else columns sample_owner @ [CompletenessScore]) \<and>
         length (rows df') = length (rows sample_owner) \<and>
         (\<forall>c\<in>set (columns sample_owner).
            c \<noteq> CompletenessScore \<longrightarrow> column df' c = column sample_owner c) \<and>
         column df' CompletenessScore = map IntV sc \<and>
         incomplete_resources df' (tag_fields sample_owner) = Inr u" ..
  then obtain sc where all:
        "task3 sample_owner = Inr (df', u) \<and>
         completeness_score sample_owner (tag_fields sample_owner) = Inr sc \<and>
         columns df' =
           (if CompletenessScore \<in> set (columns sample_owner) then columns sample_owner
            else columns sample_owner @ [CompletenessScore]) \<and>
         length (rows df') = length (rows sample_owner) \<and>
         (\<forall>c\<in>set (columns sample_owner).
            c \<noteq> CompletenessScore \<longrightarrow> column df' c = column sample_owner c) \<and>
         column df' CompletenessScore = map IntV sc \<and>
         incomplete_resources df' (tag_fields sample_owner) = Inr u" ..
  note a1 = all [THEN conjunct1]
  note a2 = all [THEN conjunct2, THEN conjunct1]
  note a3 = all [THEN conjunct2, THEN conjunct2, THEN conjunct1]
  note a4 = all [THEN conjunct2, THEN conjunct2, THEN conjunct2, THEN conjunct1]
  note a5 = all [THEN conjunct2, THEN conjunct2, THEN conjunct2, THEN conjunct2, THEN conjunct1]
  note a6 = all [THEN conjunct2, THEN conjunct2, THEN conjunct2, THEN conjunct2, THEN conjunct2,
      THEN conjunct1]
  have d: "fst (projr (task3 sample_owner)) = df'"
    by (simp add: a1)
  have sc: "sc = [0]"
    using a2 by (simp add: completeness_score_sample_owner)
  have 1: "columns df' = [ResourceID, Owner, CompletenessScore]"
    unfolding a3 by (simp add: sample_owner_def label_defs)
  have 2: "length (rows df') = 1"
    unfolding a4 by (simp add: sample_owner_def)
  have r: "ResourceID \<in> set (columns sample_owner)" by (simp add: sample_owner_def)
  have o: "Owner \<in> set (columns sample_owner)" by (simp add: sample_owner_def)
  have rn: "ResourceID \<noteq> CompletenessScore" by (simp add: label_defs)
  have on: "Owner \<noteq> CompletenessScore" by (simp add: label_defs)
  have 3: "column df' ResourceID = [Str (py ''r1'')]"
    unfolding a5 [THEN bspec, OF r, THEN mp, OF rn]
    by (simp add: column_def cell_of_def sample_owner_def label_defs)
  have 4: "column df' Owner = [NaN]"
    unfolding a5 [THEN bspec, OF o, THEN mp, OF on]
    by (simp add: column_def cell_of_def sample_owner_def label_defs)
  have 5: "column df' CompletenessScore = [IntV 0]"
    unfolding a6 sc by simp
  have wfe: "well_formed empty_frame"
    by (simp add: empty_frame_def well_formed_def)
  have e: "df_empty empty_frame \<or> tag_fields empty_frame = []"
    by (simp add: df_empty_def empty_frame_def)
  have 6: "task3 empty_frame = Inr (empty_frame, empty_frame)"
    by (rule task3_adds_only_score_column [of empty_frame, THEN mp, OF wfe, THEN conjunct1,
          THEN mp, OF e])
  from 1 2 3 4 5 6 show ?thesis
    unfolding d by (intro conjI)
qed

lemma task3_sample_owner:
  "task3 sample_owner =
     Inr (\<lparr>columns = [ResourceID, Owner, CompletenessScore],
           rows = [[Str (py ''r1''), NaN, IntV 0]]\<rparr>,
          \<lparr>columns = [ResourceID, Owner, CompletenessScore],
           rows = [[Str (py ''r1''), Str [], IntV 0]]\<rparr>)"
  by code_simp

theorem task3_changes_table_counterexample:
  "task3 sample_owner =
     Inr (\<lparr>columns = [ResourceID, Owner, CompletenessScore],
           rows = [[Str (py ''r1''), NaN, IntV 0]]\<rparr>,
          \<lparr>columns = [ResourceID, Owner, CompletenessScore],
           rows = [[Str (py ''r1''), Str [], IntV 0]]\<rparr>) \<and>
   columns (fst (projr (task3 sample_owner))) \<noteq> columns sample_owner"
  unfolding task3_sample_owner by (simp add: sample_owner_def label_defs)

section \<open>A failed load\<close>

lemma to_numeric_rejects:
  "Str s \<in> set cs \<Longrightarrow> parse s = None \<Longrightarrow> to_numeric parse cs = Inl ValueError"
proof (induction cs)
  case Nil
  then show ?case by simp
next
  case (Cons c cs)
  show ?case
  proof (cases "c = Str s")
    case True
    with Cons.prems show ?thesis by simp
  next
    case False
    with Cons.prems have "Str s \<in> set cs" by simp
    then have "to_numeric parse cs = Inl ValueError"
      using Cons.prems(2) by (rule Cons.IH)
    then show ?thesis
      by (simp split: cell.splits option.splits)
  qed
qed

lemma load_csv_rejects:
  assumes "data sc = Text xs"
    and "Str s \<in> set (column (split_frame (header_string sc) xs) MonthlyCostUSD)"
    and "parse s = None"
  shows "\<exists>e. load_csv parse (Inr sc) = Inl e"
proof -
  have tn: "to_numeric parse (column (split_frame (header_string sc) xs) MonthlyCostUSD) =
      Inl ValueError"
    using assms(2,3) by (rule to_numeric_rejects)
  show ?thesis
    unfolding load_csv_def sum.case assms(1) column0.case Let_def tn
    by simp
qed

lemma tasks_skip_empty:
  "\<not> \<not> df_empty empty_frame"
  "pct_untagged empty_frame = None"
  "task2_1 empty_frame = None"
  "task2_3 empty_frame = None"
  "task2_4 empty_frame = None"
  "task2_5 empty_frame = None"
  "task3 empty_frame = Inr (empty_frame, empty_frame)"
  "task4 ms empty_frame = (empty_frame, None)"
  "task5 data_editor empty_frame = None"
proof -
  show e: "\<not> \<not> df_empty empty_frame" by (simp add: df_empty_def empty_frame_def)
  then have e': "df_empty empty_frame" by simp
  show "pct_untagged empty_frame = None" using e' by (simp add: pct_untagged_def)
  show "task2_1 empty_frame = None" using e' by (simp add: task2_1_def)
  show "task2_3 empty_frame = None" using e' by (simp add: task2_3_def)
  show "task2_4 empty_frame = None" using e' by (simp add: task2_4_def)
  show "task2_5 empty_frame = None" using e' by (simp add: task2_5_def)
  show "task3 empty_frame = Inr (empty_frame, empty_frame)" using e' by (simp add: task3_def)
  have f: "filtered_table ms empty_frame = empty_frame"
    by (simp add: filtered_table_def apply_filter_def empty_frame_def)
  show "task4 ms empty_frame = (empty_frame, None)"
    using e' by (simp add: task4_def f Let_def)
  show "task5 data_editor empty_frame = None" using e' by (simp add: task5_def)
qed

text \<open>
  Claim C6. A cost field that \<open>to_numeric\<close> rejects makes the load fail, whatever the
  earlier steps did, and so does a failure of \<open>read_csv\<close>. Whenever the load fails with an
  exception, the table is the empty frame and the message shown is the error; the script
  then runs to its end without raising: nothing of tasks 1, 2, 4 and 5 is computed, and
  the table, the incomplete resources and the filtered table are empty.
\<close>

theorem load_failure_empties_and_skips:
  "(data sc = Text xs \<and>
    Str s \<in> set (column (split_frame (header_string sc) xs) MonthlyCostUSD) \<and> parse s = None
      \<longrightarrow> (\<exists>e'. load_csv parse (Inr sc) = Inl e')) \<and>
   load_csv parse (Inl e) = Inl e \<and>
   (load_csv parse rd = Inl e \<longrightarrow>
      load parse rd = (empty_frame, LoadError e) \<and>
      df_empty empty_frame \<and>
      run parse ms data_editor rd =
        Inr \<lparr>shown = LoadError e, missing_values = None, untagged_percentage = None,
             cost_by_tag = None, dept_untagged = None, project_cost = None, env_cost = None,
             table = empty_frame, untagged_df = empty_frame, filtered = empty_frame,
             charts = None, edited_table = None\<rparr>)"
proof (intro conjI impI)
  assume "data sc = Text xs \<and>
    Str s \<in> set (column (split_frame (header_string sc) xs) MonthlyCostUSD) \<and> parse s = None"
  then show "\<exists>e'. load_csv parse (Inr sc) = Inl e'"
    using load_csv_rejects by blast
next
  show "load_csv parse (Inl e) = Inl e" by (simp add: load_csv_def)
next
  assume a: "load_csv parse rd = Inl e"
  then show l: "load parse rd = (empty_frame, LoadError e)" by (simp add: load_def)
  show "df_empty empty_frame" using tasks_skip_empty(1) by simp
  show "run parse ms data_editor rd =
        Inr \<lparr>shown = LoadError e, missing_values = None, untagged_percentage = None,
             cost_by_tag = None, dept_untagged = None, project_cost = None, env_cost = None,
             table = empty_frame, untagged_df = empty_frame, filtered = empty_frame,
             charts = None, edited_table = None\<rparr>"
    unfolding run_def l by (simp add: tasks_skip_empty)
qed

lemma header_sample_bad_cost:
  "cleaned_header_list (py ''ResourceID,MonthlyCostUSD'') = [ResourceID, MonthlyCostUSD]"
  by (simp add: cleaned_header_list_def strip_def remove_bom_def is_space_def BOM_def comma_def
        label_defs)

lemma pieces_sample_bad_cost:
  "pieces (Some (py ''r1,10'')) = [Str (py ''r1''), Str (py ''10'')]"
  "pieces (Some (py ''r2,abc'')) = [Str (py ''r2''), Str (py ''abc'')]"
  by (simp_all add: pieces_def comma_def py_def)

lemma frame_sample_bad_cost:
  "split_frame (py ''ResourceID,MonthlyCostUSD'') [Some (py ''r1,10''), Some (py ''r2,abc'')] =
     \<lparr>columns = [ResourceID, MonthlyCostUSD],
      rows = [[Str (py ''r1''), Str (py ''10'')], [Str (py ''r2''), Str (py ''abc'')]]\<rparr>"
  unfolding split_frame_def header_sample_bad_cost str_split_expand_def width_def
  by (simp add: pieces_sample_bad_cost) (simp add: replace_blank_def blank_def is_space_def py_def)

lemma column_sample_bad_cost:
  "column (split_frame (header_string sample_bad_cost) [Some (py ''r1,10''), Some (py ''r2,abc'')])
     MonthlyCostUSD = [Str (py ''10''), Str (py ''abc'')]"
  unfolding sample_bad_cost_def single_col.simps frame_sample_bad_cost
  by (simp add: column_def cell_of_def label_defs)

lemma load_csv_sample_bad_cost: "load_csv parse_digits (Inr sample_bad_cost) = Inl ValueError"
proof -
  have w: "width [Some (py ''r1,10''), Some (py ''r2,abc'')] = 2"
    unfolding width_def by (simp add: pieces_sample_bad_cost)
  have n: "MonthlyCostUSD \<noteq> ResourceID" by (simp add: label_defs)
  have tn: "to_numeric parse_digits [Str (py ''10''), Str (py ''abc'')] = Inl ValueError"
    by (simp add: parse_digits_def py_def)
  show ?thesis
    unfolding load_csv_def sum.case sample_bad_cost_def single_col.simps column0.case Let_def
      header_sample_bad_cost w
      column_sample_bad_cost [unfolded sample_bad_cost_def single_col.simps] tn
    unfolding frame_sample_bad_cost
    using n by simp
qed

theorem load_failure_empties_and_skips_witness:
  "parse_digits (py ''abc'') = None \<and>
   load parse_digits (Inr sample_bad_cost) = (empty_frame, LoadError ValueError) \<and>
   run parse_digits choose_ec2 (\<lambda>df. df) (Inr sample_bad_cost) =
     Inr \<lparr>shown = LoadError ValueError, missing_values = None, untagged_percentage = None,
          cost_by_tag = None, dept_untagged = None, project_cost = None, env_cost = None,
          table = empty_frame, untagged_df = empty_frame, filtered = empty_frame,
          charts = None, edited_table = None\<rparr>"
proof -
  note t = load_failure_empties_and_skips [of sample_bad_cost
      "[Some (py ''r1,10''), Some (py ''r2,abc'')]" "py ''abc''" parse_digits ValueError
      "Inr sample_bad_cost" choose_ec2 "\<lambda>df. df"]
  have p: "parse_digits (py ''abc'') = None"
    by (simp add: parse_digits_def py_def)
  have h: "data sample_bad_cost = Text [Some (py ''r1,10''), Some (py ''r2,abc'')] \<and>
      Str (py ''abc'') \<in> set (column (split_frame (header_string sample_bad_cost)
        [Some (py ''r1,10''), Some (py ''r2,abc'')]) MonthlyCostUSD) \<and>
      parse_digits (py ''abc'') = None"
    unfolding column_sample_bad_cost using p by (simp add: sample_bad_cost_def)
  from t [THEN conjunct1, THEN mp, OF h]
  obtain e' where e': "load_csv parse_digits (Inr sample_bad_cost) = Inl e'" ..
  then have "e' = ValueError" by (simp add: load_csv_sample_bad_cost)
  with e' have f: "load_csv parse_digits (Inr sample_bad_cost) = Inl ValueError" by simp
  note r = t [THEN conjunct2, THEN conjunct2, THEN mp, OF f]
  from p r [THEN conjunct1] r [THEN conjunct2, THEN conjunct2] show ?thesis
    by (intro conjI)
qed

end
